theory Spec2Isabelle
  imports Main "HOL-Library.Word"
begin

section \<open>Primitive types of package common\<close>

text \<open>
  Go's \<^verbatim>\<open>int\<close> is taken at its 64-bit width: arithmetic wraps around and comparisons are
  signed. \<^verbatim>\<open>common.Address\<close> is a string type (the code converts strings to it).
\<close>

type_synonym byte = "8 word"
type_synonym go_int = "64 word"
type_synonym int64 = "64 word"
type_synonym uint64 = "64 word"
type_synonym Address = string

text \<open>
  Modelled from the spec: the declaration of \<^verbatim>\<open>common.Hash\<close> is not among the sources.
  The spec (section 3) makes it a fixed-size 32-byte digest with a canonical zero value, the
  null hash. The code agrees: it stores the \<^verbatim>\<open>[32]byte\<close> result of
  \<^verbatim>\<open>sha256.Sum256\<close> in a \<^verbatim>\<open>Hash\<close> field, compares hashes with \<^verbatim>\<open>==\<close> and uses them as
  map keys, which Go allows for an array and for no slice. A hash is therefore a 256-bit value,
  and Go's \<^verbatim>\<open>len\<close> of it is the constant length of the array.
\<close>

type_synonym Hash = "256 word"

definition HashLength :: nat where
  "HashLength = 32"

definition len_Hash :: "Hash \<Rightarrow> nat" where
  "len_Hash h = HashLength"

definition NullHash :: Hash where
  "NullHash = 0"

definition Hash_Bytes :: "Hash \<Rightarrow> byte list" where
  "Hash_Bytes h = map (\<lambda>i. ucast (drop_bit (8 * (31 - i)) h)) [0..<32]"

section \<open>Errors, panics and results\<close>

text \<open>
  Errors are values. \<open>NotFound\<close>, \<open>IOError\<close> and \<open>EncodeError\<close> are the failures of the
  store and of the codec (spec, section 6); \<open>ErrorMsg\<close> is \<^verbatim>\<open>fmt.Errorf\<close> of a plain
  message and \<open>Wrap\<close> is \<^verbatim>\<open>fmt.Errorf("msg: %w", err)\<close>.
  A call of \<^verbatim>\<open>log.Panic\<close> ends the function without a result: \<open>Panics\<close>.
\<close>

datatype error = NotFound | IOError | EncodeError | ErrorMsg string | Wrap string error

datatype panic = PanicError error | PanicMsg string

datatype 'a outcome = Returns 'a | Panics panic

section \<open>Transactions (transaction.go)\<close>

record TxOutput =
  Value :: go_int
  PubKey :: Address

text \<open>The field \<^verbatim>\<open>ID\<close> of \<^verbatim>\<open>TxInput\<close> is \<open>InID\<close> here, apart from the transaction's \<open>ID\<close>.\<close>

record TxInput =
  InID :: Hash
  Out :: go_int
  Sig :: Address

record Transaction =
  ID :: Hash
  Inputs :: "TxInput list"
  Outputs :: "TxOutput list"

section \<open>Blocks (block.go)\<close>

text \<open>
  Modelled from the spec: the declaration of \<^verbatim>\<open>BlockHeader\<close> is not among the sources;
  section 3 of the spec gives its fields, and the code reads \<^verbatim>\<open>Priori\<close>, \<^verbatim>\<open>Timestamp\<close>
  and \<^verbatim>\<open>Nonce\<close>. A block embeds its header.
\<close>

record BlockHeader =
  Priori :: Hash
  Summary :: Hash
  Timestamp :: int64
  Nonce :: int64

record Block = BlockHeader +
  BlockHeight :: int64
  BlockTxns :: "Transaction list"
  BlockHash :: Hash

section \<open>The collaborators\<close>

text \<open>
  Modelled from the spec: the store (package db) and the codec (\<^verbatim>\<open>common.GobEncode\<close>,
  \<^verbatim>\<open>common.GobDecode\<close>) are not among the sources. By section 6 of the spec the store maps
  byte keys to byte values, a read fails with NotFound or IOError, a write with IOError, and
  the codec round-trips every field of a block and of the height exactly. The model keeps the
  decoded values in the store: the blocks by their hash, and the two reserved keys
  \<^verbatim>\<open>state-chainhead\<close> and \<^verbatim>\<open>state-chainheight\<close>.
\<close>

record Database =
  blocks :: "Hash \<rightharpoonup> Block"
  chainhead :: "Hash option"
  chainheight :: "int64 option"

datatype dbkey = BlockKey Hash | ChainHeadKey | ChainHeightKey

text \<open>
  What the program takes from outside: the encoder of a transaction (\<open>None\<close> when it fails),
  the two SHA-256 entry points, whether the encoding of a block or of a height fails, the
  faults of the store, the proof-of-work search \<^verbatim>\<open>Mint\<close> (\<open>None\<close> when it never finds a
  nonce; otherwise the nonce and the hash), the hexadecimal rendering of a hash, the miner's
  address, and the order in which \<^verbatim>\<open>range\<close> visits the keys of a map, which Go leaves
  unspecified.
\<close>

record collab =
  GobEncode_Transaction :: "Transaction \<Rightarrow> byte list option"
  Sum256 :: "byte list \<Rightarrow> Hash"
  Hash256 :: "byte list \<Rightarrow> Hash"
  GobEncode_Block_fails :: "Block \<Rightarrow> bool"
  GobEncode_int64_fails :: "int64 \<Rightarrow> bool"
  get_fault :: "Database \<Rightarrow> dbkey \<Rightarrow> bool"
  put_fault :: "Database \<Rightarrow> dbkey \<Rightarrow> bool"
  Mint :: "BlockHeader \<Rightarrow> (int64 \<times> Hash) option"
  Hex :: "Hash \<Rightarrow> string"
  MinerAddress :: Address
  range_keys :: "(Hash \<rightharpoonup> go_int list) \<Rightarrow> Hash list"

definition GetEntry_block :: "collab \<Rightarrow> Database \<Rightarrow> Hash \<Rightarrow> error + Block" where
  "GetEntry_block c d h =
     (if get_fault c d (BlockKey h) then Inl IOError
      else case blocks d h of None \<Rightarrow> Inl NotFound | Some b \<Rightarrow> Inr b)"

definition SetEntry_block :: "collab \<Rightarrow> Database \<Rightarrow> Hash \<Rightarrow> Block \<Rightarrow> error + Database" where
  "SetEntry_block c d h b =
     (if put_fault c d (BlockKey h) then Inl IOError
      else Inr (d\<lparr>blocks := (blocks d)(h \<mapsto> b)\<rparr>))"

definition SetEntry_head :: "collab \<Rightarrow> Database \<Rightarrow> Hash \<Rightarrow> error + Database" where
  "SetEntry_head c d h =
     (if put_fault c d ChainHeadKey then Inl IOError else Inr (d\<lparr>chainhead := Some h\<rparr>))"

definition SetEntry_height :: "collab \<Rightarrow> Database \<Rightarrow> int64 \<Rightarrow> error + Database" where
  "SetEntry_height c d n =
     (if put_fault c d ChainHeightKey then Inl IOError else Inr (d\<lparr>chainheight := Some n\<rparr>))"

section \<open>Transaction construction (transaction.go)\<close>

definition Serialize :: "collab \<Rightarrow> Transaction \<Rightarrow> error + byte list" where
  "Serialize c txn =
     (case GobEncode_Transaction c txn of None \<Rightarrow> Inl EncodeError | Some data \<Rightarrow> Inr data)"

text \<open>\<^verbatim>\<open>SetID\<close> returns its error and the transaction, stamped when the encoding succeeded.\<close>

definition SetID :: "collab \<Rightarrow> Transaction \<Rightarrow> error option \<times> Transaction" where
  "SetID c txn =
     (case Serialize c txn of
        Inl err \<Rightarrow> (Some err, txn)
      | Inr txnHash \<Rightarrow> (None, txn\<lparr>ID := Sum256 c txnHash\<rparr>))"

text \<open>Both constructors drop the error of \<^verbatim>\<open>SetID\<close>.\<close>

definition CoinbaseTxn :: "collab \<Rightarrow> Address \<Rightarrow> string \<Rightarrow> Transaction" where
  "CoinbaseTxn c to_addr data =
     (let data' = (if data = [] then ''Coins to '' @ to_addr else data);
          txnIn = \<lparr>InID = NullHash, Out = - 1, Sig = data'\<rparr>;
          txnOut = \<lparr>Value = 100, PubKey = to_addr\<rparr>;
          tx = \<lparr>ID = NullHash, Inputs = [txnIn], Outputs = [txnOut]\<rparr>
      in snd (SetID c tx))"

definition IsCoinbase :: "Transaction \<Rightarrow> bool" where
  "IsCoinbase tx =
     (length (Inputs tx) = 1 \<and> len_Hash (InID (Inputs tx ! 0)) = 0 \<and> Out (Inputs tx ! 0) = - 1)"

definition CanUnlock :: "TxInput \<Rightarrow> Address \<Rightarrow> bool" where
  "CanUnlock inp address = (Sig inp = address)"

definition CanBeUnlocked :: "TxOutput \<Rightarrow> Address \<Rightarrow> bool" where
  "CanBeUnlocked out address = (PubKey out = address)"

definition Transaction_Hash :: "collab \<Rightarrow> Transaction \<Rightarrow> Hash" where
  "Transaction_Hash c txn =
     (case Serialize c txn of Inl err \<Rightarrow> NullHash | Inr data \<Rightarrow> Hash256 c data)"

text \<open>The loop of \<^verbatim>\<open>GenerateSummary\<close>, with the buffer written so far.\<close>

fun GenerateSummary_loop :: "collab \<Rightarrow> Transaction list \<Rightarrow> byte list \<Rightarrow> Hash" where
  "GenerateSummary_loop c [] buffer = Hash256 c buffer"
| "GenerateSummary_loop c (txn # txns) buffer =
     (let hash = Transaction_Hash c txn
      in if hash = NullHash then hash
         else GenerateSummary_loop c txns (buffer @ Hash_Bytes hash))"

definition GenerateSummary :: "collab \<Rightarrow> Transaction list \<Rightarrow> Hash" where
  "GenerateSummary c txns = GenerateSummary_loop c txns []"

section \<open>Block assembly (block.go)\<close>

text \<open>
  Modelled from the spec: \<^verbatim>\<open>NewBlockHeader\<close> and \<^verbatim>\<open>Mint\<close> are not among the sources.
  By section 4.3 the header takes the wall-clock time (the argument \<open>now\<close>), the prior hash
  and the summary, with the nonce unset; by section 4.2 \<^verbatim>\<open>Mint\<close> stores the nonce it
  finds in the header and returns the hash, and its search need not end.
\<close>

definition NewBlockHeader :: "int64 \<Rightarrow> Hash \<Rightarrow> Hash \<Rightarrow> BlockHeader" where
  "NewBlockHeader now priori summary =
     \<lparr>Priori = priori, Summary = summary, Timestamp = now, Nonce = 0\<rparr>"

text \<open>\<^verbatim>\<open>NewBlock\<close> has a block as its only result; \<open>None\<close> is a search that never returns.\<close>

definition NewBlock :: "collab \<Rightarrow> int64 \<Rightarrow> Transaction list \<Rightarrow> Hash \<Rightarrow> int64 \<Rightarrow> Block option" where
  "NewBlock c now txns priori height =
     (let summary = GenerateSummary c txns;
          header = NewBlockHeader now priori summary
      in case Mint c header of
           None \<Rightarrow> None
         | Some (nonce, hash) \<Rightarrow>
             Some \<lparr>Priori = Priori header, Summary = Summary header,
                   Timestamp = Timestamp header, Nonce = nonce,
                   BlockHeight = height, BlockTxns = txns, BlockHash = hash\<rparr>)"

definition Block_Serialize :: "collab \<Rightarrow> Block \<Rightarrow> error option" where
  "Block_Serialize c block = (if GobEncode_Block_fails c block then Some EncodeError else None)"

section \<open>The chain manager (chain.go)\<close>

record ChainManager =
  db :: Database
  Head :: Hash
  Height :: int64

definition syncState :: "collab \<Rightarrow> ChainManager \<Rightarrow> error option \<times> ChainManager" where
  "syncState c chain =
     (case SetEntry_head c (db chain) (Head chain) of
        Inl err \<Rightarrow> (Some (Wrap ''error syncing chain head'' err), chain)
      | Inr d1 \<Rightarrow>
          if GobEncode_int64_fails c (Height chain)
          then (Some (Wrap ''error serializing chain height'' EncodeError), chain\<lparr>db := d1\<rparr>)
          else (case SetEntry_height c d1 (Height chain) of
                  Inl err \<Rightarrow> (Some (Wrap ''error syncing chain height'' err), chain\<lparr>db := d1\<rparr>)
                | Inr d2 \<Rightarrow> (None, chain\<lparr>db := d2\<rparr>)))"

text \<open>
  \<^verbatim>\<open>ChainManager.AddBlock\<close>: the error it returns (\<open>None\<close> for nil) and the manager it leaves.
  The outer \<open>None\<close> is a call that never returns, the proof-of-work search going on for ever.
\<close>

definition AddBlock :: "collab \<Rightarrow> int64 \<Rightarrow> Transaction list \<Rightarrow> ChainManager \<Rightarrow> (error option \<times> ChainManager) option" where
  "AddBlock c now txns chain =
     (case NewBlock c now txns (Head chain) (Height chain) of
        None \<Rightarrow> None
      | Some block \<Rightarrow>
          (case Block_Serialize c block of
             Some err \<Rightarrow> Some (Some (Wrap ''block serialize failed'' err), chain)
           | None \<Rightarrow>
               (case SetEntry_block c (db chain) (BlockHash block) block of
                  Inl err \<Rightarrow> Some (Some (Wrap ''block store to db failed'' err), chain)
                | Inr d1 \<Rightarrow>
                    (case syncState c (chain\<lparr>db := d1, Head := BlockHash block, Height := Height chain + 1\<rparr>) of
                       (Some err, chain') \<Rightarrow> Some (Some (Wrap ''chain state sync failed'' err), chain')
                     | (None, chain') \<Rightarrow> Some (None, chain')))))"

text \<open>
  \<^verbatim>\<open>init\<close> on the store that \<^verbatim>\<open>db.Open\<close> hands over (the argument \<open>d\<close>; the failure of
  \<^verbatim>\<open>Open\<close> itself is left to the caller), from the zero value of a manager.
\<close>

definition init :: "collab \<Rightarrow> int64 \<Rightarrow> Database \<Rightarrow> (error option \<times> ChainManager) option" where
  "init c now d =
     (let chain = \<lparr>db = d, Head = 0, Height = 0\<rparr>
      in case NewBlock c now [CoinbaseTxn c (MinerAddress c) ''Genesis Block Coinbase Transaction''] NullHash 0 of
           None \<Rightarrow> None
         | Some genesisBlock \<Rightarrow>
             (case Block_Serialize c genesisBlock of
                Some err \<Rightarrow> Some (Some (Wrap ''block serialize failed'' err), chain)
              | None \<Rightarrow>
                  (case SetEntry_block c (db chain) (BlockHash genesisBlock) genesisBlock of
                     Inl err \<Rightarrow> Some (Some (Wrap ''genesis block store to db failed'' err), chain)
                   | Inr d1 \<Rightarrow>
                       (case syncState c (chain\<lparr>db := d1, Head := BlockHash genesisBlock, Height := 1\<rparr>) of
                          (Some err, chain') \<Rightarrow> Some (Some (Wrap ''chain state sync failed'' err), chain')
                        | (None, chain') \<Rightarrow> Some (None, chain')))))"

section \<open>The chain iterator\<close>

text \<open>
  Modelled from the spec: the iterator is not among the sources. By section 4.5 it starts at
  the head current when it is created; \<^verbatim>\<open>Next\<close> fails when the store has no block under
  the cursor, and otherwise yields the block and moves the cursor to the block's prior hash.
\<close>

record ChainIterator =
  cursor :: Hash

definition NewIterator :: "ChainManager \<Rightarrow> ChainIterator" where
  "NewIterator chain = \<lparr>cursor = Head chain\<rparr>"

definition Next :: "collab \<Rightarrow> Database \<Rightarrow> ChainIterator \<Rightarrow> (error + Block) \<times> ChainIterator" where
  "Next c d iter =
     (case GetEntry_block c d (cursor iter) of
        Inl err \<Rightarrow> (Inl err, iter)
      | Inr block \<Rightarrow> (Inr block, iter\<lparr>cursor := Priori block\<rparr>))"

section \<open>Unspent outputs (chain.go)\<close>

text \<open>A Go map from hashes to slices; the entry of a missing key reads as the nil slice.\<close>

type_synonym outmap = "Hash \<rightharpoonup> go_int list"

definition slice_at :: "outmap \<Rightarrow> Hash \<Rightarrow> go_int list" where
  "slice_at m k = (case m k of None \<Rightarrow> [] | Some outs \<Rightarrow> outs)"

text \<open>The loop labelled \<^verbatim>\<open>Outputs\<close>, from output index \<open>outIdx\<close> on.\<close>

fun Outputs_loop :: "outmap \<Rightarrow> Address \<Rightarrow> Transaction \<Rightarrow> nat \<Rightarrow> TxOutput list \<Rightarrow> Transaction list \<Rightarrow> Transaction list" where
  "Outputs_loop spentTXOs address tx outIdx [] unspentTxs = unspentTxs"
| "Outputs_loop spentTXOs address tx outIdx (out # outs) unspentTxs =
     (if of_nat outIdx \<in> set (slice_at spentTXOs (ID tx))
      then Outputs_loop spentTXOs address tx (Suc outIdx) outs unspentTxs
      else if CanBeUnlocked out address
      then Outputs_loop spentTXOs address tx (Suc outIdx) outs (unspentTxs @ [tx])
      else Outputs_loop spentTXOs address tx (Suc outIdx) outs unspentTxs)"

fun Inputs_loop :: "Address \<Rightarrow> TxInput list \<Rightarrow> outmap \<Rightarrow> outmap" where
  "Inputs_loop address [] spentTXOs = spentTXOs"
| "Inputs_loop address (inp # inps) spentTXOs =
     (if CanUnlock inp address
      then Inputs_loop address inps (spentTXOs(InID inp \<mapsto> slice_at spentTXOs (InID inp) @ [Out inp]))
      else Inputs_loop address inps spentTXOs)"

text \<open>The loop over the transactions of one block.\<close>

fun BlockTxns_loop :: "Address \<Rightarrow> Transaction list \<Rightarrow> Transaction list \<times> outmap \<Rightarrow> Transaction list \<times> outmap" where
  "BlockTxns_loop address [] st = st"
| "BlockTxns_loop address (tx # txs) (unspentTxs, spentTXOs) =
     (let unspentTxs' = Outputs_loop spentTXOs address tx 0 (Outputs tx) unspentTxs;
          spentTXOs' = (if IsCoinbase tx = False then Inputs_loop address (Inputs tx) spentTXOs
                        else spentTXOs)
      in BlockTxns_loop address txs (unspentTxs', spentTXOs'))"

text \<open>
  The unbounded \<^verbatim>\<open>for\<close> of \<^verbatim>\<open>FindUnspentTransactions\<close>, with fuel: \<open>None\<close> when the
  fuel runs out before the loop ends. Each result carries the manager as the call leaves it.
\<close>

fun FindUnspentTransactions_loop :: "nat \<Rightarrow> collab \<Rightarrow> ChainManager \<Rightarrow> Address \<Rightarrow> ChainIterator \<Rightarrow> Transaction list \<times> outmap \<Rightarrow> ((error + Transaction list) \<times> ChainManager) option" where
  "FindUnspentTransactions_loop 0 c chain address iter st = None"
| "FindUnspentTransactions_loop (Suc fuel) c chain address iter st =
     (case Next c (db chain) iter of
        (Inl err, iter') \<Rightarrow> Some (Inl err, chain)
      | (Inr block, iter') \<Rightarrow>
          (let st' = BlockTxns_loop address (BlockTxns block) st
           in if len_Hash (Priori block) = 0 then Some (Inr (fst st'), chain)
              else FindUnspentTransactions_loop fuel c chain address iter' st'))"

definition FindUnspentTransactions :: "nat \<Rightarrow> collab \<Rightarrow> ChainManager \<Rightarrow> Address \<Rightarrow> ((error + Transaction list) \<times> ChainManager) option" where
  "FindUnspentTransactions fuel c chain address =
     FindUnspentTransactions_loop fuel c chain address (NewIterator chain) ([], Map.empty)"

definition FindUTXO :: "nat \<Rightarrow> collab \<Rightarrow> ChainManager \<Rightarrow> Address \<Rightarrow> ((error + TxOutput list) \<times> ChainManager) option" where
  "FindUTXO fuel c chain address =
     (case FindUnspentTransactions fuel c chain address of
        None \<Rightarrow> None
      | Some (Inl err, chain') \<Rightarrow> Some (Inl err, chain')
      | Some (Inr unspentTransactions, chain') \<Rightarrow>
          Some (Inr (concat (map (\<lambda>tx. filter (\<lambda>out. CanBeUnlocked out address) (Outputs tx))
                               unspentTransactions)), chain'))"

text \<open>
  The loop labelled \<^verbatim>\<open>Work\<close>. The inner loop says whether it left through
  \<^verbatim>\<open>break Work\<close>.
\<close>

fun Work_outputs :: "Address \<Rightarrow> go_int \<Rightarrow> Hash \<Rightarrow> nat \<Rightarrow> TxOutput list \<Rightarrow> go_int \<times> outmap \<Rightarrow> bool \<times> go_int \<times> outmap" where
  "Work_outputs address amount txID outIdx [] (accumulated, unspentOuts) =
     (False, accumulated, unspentOuts)"
| "Work_outputs address amount txID outIdx (out # outs) (accumulated, unspentOuts) =
     (if CanBeUnlocked out address \<and> accumulated <s amount
      then (let accumulated' = accumulated + Value out;
                unspentOuts' = unspentOuts(txID \<mapsto> slice_at unspentOuts txID @ [of_nat outIdx])
            in if amount \<le>s accumulated' then (True, accumulated', unspentOuts')
               else Work_outputs address amount txID (Suc outIdx) outs (accumulated', unspentOuts'))
      else Work_outputs address amount txID (Suc outIdx) outs (accumulated, unspentOuts))"

fun Work :: "Address \<Rightarrow> go_int \<Rightarrow> Transaction list \<Rightarrow> go_int \<times> outmap \<Rightarrow> go_int \<times> outmap" where
  "Work address amount [] st = st"
| "Work address amount (tx # unspentTxs) st =
     (case Work_outputs address amount (ID tx) 0 (Outputs tx) st of
        (True, st') \<Rightarrow> st'
      | (False, st') \<Rightarrow> Work address amount unspentTxs st')"

text \<open>The three results of \<^verbatim>\<open>FindSpendableOutputs\<close>; the nil map is the empty map.\<close>

definition FindSpendableOutputs :: "nat \<Rightarrow> collab \<Rightarrow> ChainManager \<Rightarrow> Address \<Rightarrow> go_int \<Rightarrow> ((go_int \<times> outmap \<times> error option) \<times> ChainManager) option" where
  "FindSpendableOutputs fuel c chain address amount =
     (case FindUnspentTransactions fuel c chain address of
        None \<Rightarrow> None
      | Some (Inl err, chain') \<Rightarrow> Some ((- 1, Map.empty, Some err), chain')
      | Some (Inr unspentTxs, chain') \<Rightarrow>
          (case Work address amount unspentTxs (0, Map.empty) of
             (accumulated, unspentOuts) \<Rightarrow> Some ((accumulated, unspentOuts, None), chain')))"

section \<open>Transfers (transaction.go) and the public operation (addblock.go)\<close>

text \<open>
  \<^verbatim>\<open>NewTransaction\<close> from the answer of \<^verbatim>\<open>FindSpendableOutputs\<close> on: the check of the
  funds, one input for each index of each key of \<open>validOutputs\<close>, the keys in the order \<open>ks\<close>
  in which \<^verbatim>\<open>range\<close> visits them, the outputs, and the id.
\<close>

definition NewTransaction_build :: "collab \<Rightarrow> Address \<Rightarrow> Address \<Rightarrow> go_int \<Rightarrow> go_int \<Rightarrow> outmap \<Rightarrow> Hash list \<Rightarrow> Transaction outcome" where
  "NewTransaction_build c from_addr to_addr amount acc validOutputs ks =
     (if acc <s amount then Panics (PanicMsg ''Error: not enough funds'')
      else (let inputs = concat (map (\<lambda>txid. map (\<lambda>out. \<lparr>InID = txid, Out = out, Sig = from_addr\<rparr>)
                                                 (slice_at validOutputs txid)) ks);
                outputs = [\<lparr>Value = amount, PubKey = to_addr\<rparr>] @
                          (if amount <s acc then [\<lparr>Value = acc - amount, PubKey = from_addr\<rparr>] else []);
                tx = \<lparr>ID = NullHash, Inputs = inputs, Outputs = outputs\<rparr>
            in Returns (snd (SetID c tx))))"

definition NewTransaction :: "nat \<Rightarrow> collab \<Rightarrow> Address \<Rightarrow> Address \<Rightarrow> go_int \<Rightarrow> ChainManager \<Rightarrow> (Transaction outcome \<times> ChainManager) option" where
  "NewTransaction fuel c from_addr to_addr amount chain =
     (case FindSpendableOutputs fuel c chain from_addr amount of
        None \<Rightarrow> None
      | Some ((acc, validOutputs, Some err), chain') \<Rightarrow> Some (Panics (PanicError err), chain')
      | Some ((acc, validOutputs, None), chain') \<Rightarrow>
          Some (NewTransaction_build c from_addr to_addr amount acc validOutputs
                  (range_keys c validOutputs), chain'))"

record TransactionInput =
  TxnTo :: string
  TxnFrom :: string
  TxnValue :: go_int

record AddBlockResult =
  ResultBlockHeight :: uint64
  ResultBlockHash :: string

text \<open>The loop of \<^verbatim>\<open>API.AddBlock\<close> that builds the transactions.\<close>

fun API_AddBlock_loop :: "nat \<Rightarrow> collab \<Rightarrow> TransactionInput list \<Rightarrow> ChainManager \<Rightarrow> Transaction list \<Rightarrow> (Transaction list outcome \<times> ChainManager) option" where
  "API_AddBlock_loop fuel c [] chain transactions = Some (Returns transactions, chain)"
| "API_AddBlock_loop fuel c (txn # rest) chain transactions =
     (case NewTransaction fuel c (TxnFrom txn) (TxnTo txn) (TxnValue txn) chain of
        None \<Rightarrow> None
      | Some (Panics p, chain') \<Rightarrow> Some (Panics p, chain')
      | Some (Returns newtxn, chain') \<Rightarrow>
          API_AddBlock_loop fuel c rest chain' (transactions @ [newtxn]))"

text \<open>
  \<^verbatim>\<open>API.AddBlock\<close>: the error it returns, the result slot (written on success only) and the
  manager of the API.
\<close>

definition API_AddBlock :: "nat \<Rightarrow> collab \<Rightarrow> int64 \<Rightarrow> TransactionInput list \<Rightarrow> AddBlockResult \<Rightarrow> ChainManager \<Rightarrow> ((error option \<times> AddBlockResult) outcome \<times> ChainManager) option" where
  "API_AddBlock fuel c now args result chain =
     (if length args = 0
      then Some (Returns (Some (ErrorMsg ''no transactions for block''), result), chain)
      else (case API_AddBlock_loop fuel c args chain [] of
              None \<Rightarrow> None
            | Some (Panics p, chain1) \<Rightarrow> Some (Panics p, chain1)
            | Some (Returns transactions, chain1) \<Rightarrow>
                (case AddBlock c now transactions chain1 of
                   None \<Rightarrow> None
                 | Some (Some err, chain2) \<Rightarrow>
                     Some (Returns (Some (Wrap ''failed to add block'' err), result), chain2)
                 | Some (None, chain2) \<Rightarrow>
                     Some (Returns (None, \<lparr>ResultBlockHeight = Height chain2 - 1,
                                           ResultBlockHash = Hex c (Head chain2)\<rparr>), chain2))))"

section \<open>Chains, replay and runs\<close>

text \<open>
  A well-formed chain, as the claims speak of it: the blocks \<open>bs\<close>, newest first, are stored
  under the hashes that link them backward from the head, the prior hash of the last one (the
  genesis block) is the null hash, and no block is stored under the null hash.
\<close>

fun linked :: "(Hash \<rightharpoonup> Block) \<Rightarrow> Hash \<Rightarrow> Block list \<Rightarrow> bool" where
  "linked m h [] = (h = NullHash)"
| "linked m h (b # bs) = (m h = Some b \<and> linked m (Priori b) bs)"

definition well_formed_chain :: "ChainManager \<Rightarrow> Block list \<Rightarrow> bool" where
  "well_formed_chain chain bs =
     (bs \<noteq> [] \<and> linked (blocks (db chain)) (Head chain) bs \<and> blocks (db chain) NullHash = None)"

text \<open>
  The independent replay of the spec's conservation property, over all transactions of the
  chain: the values of the outputs addressed to \<open>address\<close>, minus the values of the outputs
  that the inputs signed by \<open>address\<close> reference. An input that references no output of the
  chain (a coinbase input) counts for nothing.
\<close>

definition spec_received :: "Transaction list \<Rightarrow> Address \<Rightarrow> int" where
  "spec_received txs address =
     sum_list (map (\<lambda>out. sint (Value out))
                 (filter (\<lambda>out. PubKey out = address) (concat (map Outputs txs))))"

definition spec_output_value :: "Transaction list \<Rightarrow> Hash \<Rightarrow> int \<Rightarrow> int" where
  "spec_output_value txs txid idx =
     (case find (\<lambda>tx. ID tx = txid) txs of
        None \<Rightarrow> 0
      | Some tx \<Rightarrow> if 0 \<le> idx \<and> idx < int (length (Outputs tx))
                   then sint (Value (Outputs tx ! nat idx)) else 0)"

definition spec_referenced :: "Transaction list \<Rightarrow> Address \<Rightarrow> int" where
  "spec_referenced txs address =
     sum_list (map (\<lambda>inp. spec_output_value txs (InID inp) (sint (Out inp)))
                 (filter (\<lambda>inp. Sig inp = address) (concat (map Inputs txs))))"

definition spec_replay_balance :: "Block list \<Rightarrow> Address \<Rightarrow> int" where
  "spec_replay_balance bs address =
     spec_received (concat (map BlockTxns bs)) address
       - spec_referenced (concat (map BlockTxns bs)) address"

text \<open>
  A run of calls of \<^verbatim>\<open>AddBlock\<close>, each with its time and its transactions, all of which
  return nil: the managers after each call.
\<close>

fun successful_AddBlocks :: "collab \<Rightarrow> (int64 \<times> Transaction list) list \<Rightarrow> ChainManager \<Rightarrow> ChainManager list option" where
  "successful_AddBlocks c [] chain = Some []"
| "successful_AddBlocks c ((now, txns) # calls) chain =
     (case AddBlock c now txns chain of
        Some (None, chain') \<Rightarrow>
          (case successful_AddBlocks c calls chain' of
             Some later \<Rightarrow> Some (chain' # later)
           | None \<Rightarrow> None)
      | _ \<Rightarrow> None)"

subsection \<open>A concrete setting\<close>

text \<open>
  Collaborators for the examples: an encoder that never fails, two total hash functions, a
  store without faults and a search that finds a nonce at once; and the chain that
  \<^verbatim>\<open>init\<close> builds with them on an empty store.
\<close>

definition example_collab :: collab where
  "example_collab =
     \<lparr>GobEncode_Transaction = (\<lambda>tx. Some [of_nat (length (Inputs tx)), of_nat (length (Outputs tx))]),
      Sum256 = (\<lambda>data. 1 + of_nat (length data)),
      Hash256 = (\<lambda>data. 2 + of_nat (length data)),
      GobEncode_Block_fails = (\<lambda>b. False),
      GobEncode_int64_fails = (\<lambda>n. False),
      get_fault = (\<lambda>d k. False),
      put_fault = (\<lambda>d k. False),
      Mint = (\<lambda>h. Some (0, Priori h + Summary h + 7)),
      Hex = (\<lambda>h. []),
      MinerAddress = ''miner'',
      range_keys = (\<lambda>m. [])\<rparr>"

definition encode_fails_collab :: collab where
  "encode_fails_collab = example_collab\<lparr>GobEncode_Transaction := (\<lambda>tx. None)\<rparr>"

definition empty_db :: Database where
  "empty_db = \<lparr>blocks = Map.empty, chainhead = None, chainheight = None\<rparr>"

definition genesis_txn :: Transaction where
  "genesis_txn =
     \<lparr>ID = 3,
      Inputs = [\<lparr>InID = 0, Out = - 1, Sig = ''Genesis Block Coinbase Transaction''\<rparr>],
      Outputs = [\<lparr>Value = 100, PubKey = ''miner''\<rparr>]\<rparr>"

definition genesis_block :: Block where
  "genesis_block =
     \<lparr>Priori = 0, Summary = 34, Timestamp = 0, Nonce = 0,
      BlockHeight = 0, BlockTxns = [genesis_txn], BlockHash = 41\<rparr>"

definition genesis_chain :: ChainManager where
  "genesis_chain =
     \<lparr>db = \<lparr>blocks = [41 \<mapsto> genesis_block], chainhead = Some 41, chainheight = Some 1\<rparr>,
      Head = 41, Height = 1\<rparr>"

text \<open>Two more blocks on that chain, as \<^verbatim>\<open>AddBlock\<close> appends them at the times 5 and 6.\<close>

definition example_block1 :: Block where
  "example_block1 =
     \<lparr>Priori = 41, Summary = 34, Timestamp = 5, Nonce = 0,
      BlockHeight = 1, BlockTxns = [genesis_txn], BlockHash = 82\<rparr>"

definition example_chain1 :: ChainManager where
  "example_chain1 =
     \<lparr>db = \<lparr>blocks = [41 \<mapsto> genesis_block, 82 \<mapsto> example_block1],
             chainhead = Some 82, chainheight = Some 2\<rparr>,
      Head = 82, Height = 2\<rparr>"

definition example_block2 :: Block where
  "example_block2 =
     \<lparr>Priori = 82, Summary = 34, Timestamp = 6, Nonce = 0,
      BlockHeight = 2, BlockTxns = [genesis_txn], BlockHash = 123\<rparr>"

definition example_chain2 :: ChainManager where
  "example_chain2 =
     \<lparr>db = \<lparr>blocks = [41 \<mapsto> genesis_block, 82 \<mapsto> example_block1, 123 \<mapsto> example_block2],
             chainhead = Some 123, chainheight = Some 3\<rparr>,
      Head = 123, Height = 3\<rparr>"

section \<open>Coinbase transactions\<close>

lemma IsCoinbase_False: "IsCoinbase tx = False"
  by (simp add: IsCoinbase_def len_Hash_def HashLength_def)

text \<open>
  Claim C2. A transaction counts as a coinbase exactly when it has one input with the null
  hash as source and index -1; the transaction of \<^verbatim>\<open>CoinbaseTxn\<close> does. In the code the
  transaction of \<^verbatim>\<open>CoinbaseTxn\<close> has that one input, and \<^verbatim>\<open>IsCoinbase\<close> rejects it all the
  same, for every address and memo: the test compares the length of the 32-byte source hash
  with 0.
\<close>

theorem CoinbaseTxn_not_IsCoinbase:
  "length (Inputs (CoinbaseTxn c to_addr data)) = 1 \<and>
   InID (Inputs (CoinbaseTxn c to_addr data) ! 0) = NullHash \<and>
   Out (Inputs (CoinbaseTxn c to_addr data) ! 0) = - 1 \<and>
   IsCoinbase (CoinbaseTxn c to_addr data) = False"
  by (simp add: CoinbaseTxn_def SetID_def IsCoinbase_def len_Hash_def HashLength_def Let_def
           split: sum.splits)

section \<open>The public operation on an empty request\<close>

text \<open>
  Claim C6. \<^verbatim>\<open>API.AddBlock\<close> with no transactions returns the error
  \<^verbatim>\<open>no transactions for block\<close>; the result slot and the chain manager (store, head and
  height) are as before, so no block was assembled or stored.
\<close>

theorem API_AddBlock_empty:
  "API_AddBlock fuel c now [] result chain =
     Some (Returns (Some (ErrorMsg ''no transactions for block''), result), chain)"
  by (simp add: API_AddBlock_def)

section \<open>The backward traversal\<close>

text \<open>
  The prior hash of a block is a 32-byte array, so the test that is to end the traversal at
  the genesis block never holds: the loop has no successful exit.
\<close>

lemma FindUnspentTransactions_loop_no_success:
  "FindUnspentTransactions_loop fuel c chain address iter st \<noteq> Some (Inr txs, chain')"
  by (induction fuel arbitrary: iter st)
     (auto simp: len_Hash_def HashLength_def Let_def split: prod.splits sum.splits)

text \<open>
  On linked blocks the loop reads every block, passes the genesis block, asks the store for
  the block under the null hash and returns the error of that read.
\<close>

lemma FindUnspentTransactions_loop_linked:
  "linked (blocks (db chain)) (cursor iter) bs \<Longrightarrow> blocks (db chain) NullHash = None \<Longrightarrow>
   get_fault c (db chain) = (\<lambda>k. False) \<Longrightarrow> length bs < fuel \<Longrightarrow>
   FindUnspentTransactions_loop fuel c chain address iter st = Some (Inl NotFound, chain)"
proof (induction bs arbitrary: fuel iter st)
  case Nil
  then obtain n where "fuel = Suc n" by (cases fuel) auto
  with Nil show ?case by (simp add: Next_def GetEntry_block_def)
next
  case (Cons b bs)
  then obtain n where n: "fuel = Suc n" by (cases fuel) auto
  from Cons.prems have b: "blocks (db chain) (cursor iter) = Some b"
    and l: "linked (blocks (db chain)) (Priori b) bs" by simp_all
  have "FindUnspentTransactions_loop n c chain address (iter\<lparr>cursor := Priori b\<rparr>)
           (BlockTxns_loop address (BlockTxns b) st) = Some (Inl NotFound, chain)"
    using Cons.IH [of "iter\<lparr>cursor := Priori b\<rparr>" n] l Cons.prems n by simp
  then show ?case
    using b Cons.prems(3) n
    by (simp add: Next_def GetEntry_block_def len_Hash_def HashLength_def)
qed

lemma FindUnspentTransactions_NotFound:
  assumes "well_formed_chain chain bs" and "get_fault c (db chain) = (\<lambda>k. False)"
    and "length bs < fuel"
  shows "FindUnspentTransactions fuel c chain address = Some (Inl NotFound, chain)"
  using assms FindUnspentTransactions_loop_linked [of chain "NewIterator chain" bs c fuel address]
  by (simp add: FindUnspentTransactions_def well_formed_chain_def NewIterator_def)

lemma well_formed_genesis_chain: "well_formed_chain genesis_chain [genesis_block]"
  by (simp add: well_formed_chain_def genesis_chain_def genesis_block_def NullHash_def)

lemma example_collab_no_get_fault: "get_fault example_collab d = (\<lambda>k. False)"
  by (simp add: example_collab_def)

text \<open>The chain of the examples is the one that \<^verbatim>\<open>init\<close> builds on an empty store.\<close>

lemma init_genesis_chain: "init example_collab 0 empty_db = Some (None, genesis_chain)"
  by (simp add: init_def NewBlock_def NewBlockHeader_def GenerateSummary_def Transaction_Hash_def
      Serialize_def CoinbaseTxn_def SetID_def example_collab_def empty_db_def genesis_chain_def
      genesis_block_def genesis_txn_def Block_Serialize_def SetEntry_block_def syncState_def
      SetEntry_head_def SetEntry_height_def NullHash_def Hash_Bytes_def Let_def)

text \<open>
  Claim C3. On a well-formed chain the traversal of \<^verbatim>\<open>FindUnspentTransactions\<close> ends after
  the genesis block and returns without error. In the code it does end, for any fuel above
  the number of blocks, but not at the genesis block and not without error: on every
  well-formed chain, in a store whose reads do not fault, the result is the NotFound error
  of the read under the null hash, and no list of transactions.
\<close>

theorem FindUnspentTransactions_fails_on_well_formed_chain:
  assumes "well_formed_chain chain bs" and "get_fault c (db chain) = (\<lambda>k. False)"
    and "length bs < fuel"
  shows "FindUnspentTransactions fuel c chain address = Some (Inl NotFound, chain)"
  using assms by (rule FindUnspentTransactions_NotFound)

theorem FindUnspentTransactions_fails_on_well_formed_chain_witness:
  "well_formed_chain genesis_chain [genesis_block] \<and>
   get_fault example_collab (db genesis_chain) = (\<lambda>k. False) \<and>
   length [genesis_block] < 2 \<and>
   FindUnspentTransactions 2 example_collab genesis_chain ''miner'' =
     Some (Inl NotFound, genesis_chain)"
  using FindUnspentTransactions_fails_on_well_formed_chain
          [OF well_formed_genesis_chain example_collab_no_get_fault, of 2 "''miner''"]
        well_formed_genesis_chain example_collab_no_get_fault [of "db genesis_chain"]
  by simp

section \<open>The resolvers\<close>

text \<open>
  Claim C1. The outputs that \<^verbatim>\<open>FindUTXO\<close> returns for an address add up to what the
  replay of the chain gives: received minus referenced. In the code \<^verbatim>\<open>FindUTXO\<close> returns
  no outputs on a well-formed chain, but the error of the traversal. On the chain of
  \<^verbatim>\<open>init\<close> the replay gives the miner 100 (the witness below).
\<close>

theorem FindUTXO_fails_on_well_formed_chain:
  assumes "well_formed_chain chain bs" and "get_fault c (db chain) = (\<lambda>k. False)"
    and "length bs < fuel"
  shows "FindUTXO fuel c chain address = Some (Inl NotFound, chain)"
  using FindUnspentTransactions_NotFound [OF assms, of address] by (simp add: FindUTXO_def)

theorem FindUTXO_fails_on_well_formed_chain_witness:
  "well_formed_chain genesis_chain [genesis_block] \<and>
   get_fault example_collab (db genesis_chain) = (\<lambda>k. False) \<and>
   length [genesis_block] < 2 \<and>
   FindUTXO 2 example_collab genesis_chain ''miner'' = Some (Inl NotFound, genesis_chain) \<and>
   spec_replay_balance [genesis_block] ''miner'' = 100"
  using FindUTXO_fails_on_well_formed_chain
          [OF well_formed_genesis_chain example_collab_no_get_fault, of 2 "''miner''"]
        well_formed_genesis_chain example_collab_no_get_fault [of "db genesis_chain"]
  by (simp add: spec_replay_balance_def spec_received_def spec_referenced_def
      spec_output_value_def genesis_block_def genesis_txn_def)

text \<open>
  Claim C8. \<^verbatim>\<open>FindSpendableOutputs\<close> accumulates the unspent outputs of the address,
  newest first, until the total reaches the amount, and returns the total with the pairs it
  took. In the code, on a well-formed chain, it accumulates nothing: it returns -1, no map
  and the error of the traversal, whatever the address owns.
\<close>

theorem FindSpendableOutputs_fails_on_well_formed_chain:
  assumes "well_formed_chain chain bs" and "get_fault c (db chain) = (\<lambda>k. False)"
    and "length bs < fuel"
  shows "FindSpendableOutputs fuel c chain address amount =
           Some ((- 1, Map.empty, Some NotFound), chain)"
  using FindUnspentTransactions_NotFound [OF assms, of address]
  by (simp add: FindSpendableOutputs_def)

theorem FindSpendableOutputs_fails_on_well_formed_chain_witness:
  "well_formed_chain genesis_chain [genesis_block] \<and>
   get_fault example_collab (db genesis_chain) = (\<lambda>k. False) \<and>
   length [genesis_block] < 2 \<and>
   FindSpendableOutputs 2 example_collab genesis_chain ''miner'' 30 =
     Some ((- 1, Map.empty, Some NotFound), genesis_chain)"
  using FindSpendableOutputs_fails_on_well_formed_chain
          [OF well_formed_genesis_chain example_collab_no_get_fault, of 2 "''miner''" 30]
        well_formed_genesis_chain example_collab_no_get_fault [of "db genesis_chain"]
  by simp

lemma FindUnspentTransactions_genesis_chain:
  "FindUnspentTransactions 2 example_collab genesis_chain ''miner'' =
     Some (Inl NotFound, genesis_chain)"
  by (rule FindUnspentTransactions_NotFound
            [OF well_formed_genesis_chain example_collab_no_get_fault]) simp

section \<open>Read-only resolution\<close>

lemma FindUnspentTransactions_loop_frame:
  "FindUnspentTransactions_loop fuel c chain address iter st = Some (r, chain') \<Longrightarrow> chain' = chain"
  by (induction fuel arbitrary: iter st)
     (auto simp: Let_def split: prod.splits sum.splits if_splits)

lemma FindUnspentTransactions_frame:
  "FindUnspentTransactions fuel c chain address = Some (r, chain') \<Longrightarrow> chain' = chain"
  by (auto simp: FindUnspentTransactions_def dest: FindUnspentTransactions_loop_frame)

lemma FindUTXO_frame:
  "FindUTXO fuel c chain address = Some (r, chain') \<Longrightarrow> chain' = chain"
  by (auto simp: FindUTXO_def split: option.splits prod.splits sum.splits
           dest: FindUnspentTransactions_frame)

lemma FindSpendableOutputs_frame:
  "FindSpendableOutputs fuel c chain address amount = Some (r, chain') \<Longrightarrow> chain' = chain"
  by (auto simp: FindSpendableOutputs_def split: option.splits prod.splits sum.splits
           dest: FindUnspentTransactions_frame)

lemma NewTransaction_frame:
  "NewTransaction fuel c from_addr to_addr amount chain = Some (r, chain') \<Longrightarrow> chain' = chain"
  by (auto simp: NewTransaction_def split: option.splits prod.splits sum.splits
           dest: FindSpendableOutputs_frame)

text \<open>
  Claim C10. \<^verbatim>\<open>FindUnspentTransactions\<close>, \<^verbatim>\<open>FindUTXO\<close>, \<^verbatim>\<open>FindSpendableOutputs\<close> and
  \<^verbatim>\<open>NewTransaction\<close> leave the chain manager as they found it: its head, its height and
  the contents of its store. This holds for every way the call ends: a result, an error or a
  panic.
\<close>

theorem resolvers_read_only:
  "(FindUnspentTransactions fuel c chain address = Some (r1, chain1) \<longrightarrow> chain1 = chain) \<and>
   (FindUTXO fuel c chain address = Some (r2, chain2) \<longrightarrow> chain2 = chain) \<and>
   (FindSpendableOutputs fuel c chain address amount = Some (r3, chain3) \<longrightarrow> chain3 = chain) \<and>
   (NewTransaction fuel c address to_addr amount chain = Some (r4, chain4) \<longrightarrow> chain4 = chain)"
  by (auto dest: FindUnspentTransactions_frame FindUTXO_frame FindSpendableOutputs_frame
                 NewTransaction_frame)

theorem resolvers_read_only_witness:
  "FindUnspentTransactions 2 example_collab genesis_chain ''miner'' =
      Some (Inl NotFound, genesis_chain) \<and>
   FindUTXO 2 example_collab genesis_chain ''miner'' = Some (Inl NotFound, genesis_chain) \<and>
   FindSpendableOutputs 2 example_collab genesis_chain ''miner'' 30 =
      Some ((- 1, Map.empty, Some NotFound), genesis_chain) \<and>
   NewTransaction 2 example_collab ''miner'' ''alice'' 30 genesis_chain =
      Some (Panics (PanicError NotFound), genesis_chain)"
  using resolvers_read_only
          [of 2 example_collab genesis_chain "''miner''" "Inl NotFound" genesis_chain
              "Inl NotFound" genesis_chain 30 "(- 1, Map.empty, Some NotFound)" genesis_chain
              "''alice''" "Panics (PanicError NotFound)" genesis_chain]
        FindUnspentTransactions_genesis_chain
  by (simp add: FindUTXO_def FindSpendableOutputs_def NewTransaction_def)

section \<open>Transfers\<close>

lemma sle_not_sless: "(amount::go_int) \<le>s acc \<Longrightarrow> \<not> acc <s amount"
  by (simp add: word_sle_eq word_sless_alt)

text \<open>For an amount that is not negative, the change is the difference as integers.\<close>

lemma sint_diff_exact:
  assumes "0 \<le>s amount" and "amount \<le>s acc"
  shows "sint (acc - amount) = sint acc - sint (amount::go_int)"
proof -
  have a: "0 \<le> sint amount" using assms(1) by (simp add: word_sle_eq)
  have b: "sint amount \<le> sint acc" using assms(2) by (simp add: word_sle_eq)
  have c: "sint acc < 2 ^ 63" using sint_lt [of acc] by simp
  have "sint (acc - amount) = signed_take_bit 63 (sint acc - sint amount)"
    by (simp add: sint_word_ariths)
  also have "\<dots> = sint acc - sint amount"
    using a b c by (intro signed_take_bit_int_eq_self) simp_all
  finally show ?thesis .
qed

text \<open>The inputs carry exactly the pairs of the map, when the keys visited are its keys.\<close>

lemma pairs_of_inputs:
  "set ks = dom vo \<Longrightarrow>
   set (map (\<lambda>i. (InID i, Out i))
          (concat (map (\<lambda>txid. map (\<lambda>out. \<lparr>InID = txid, Out = out, Sig = f\<rparr>) (slice_at vo txid)) ks)))
     = {(txid, out). out \<in> set (slice_at vo txid)}"
proof (intro set_eqI iffI)
  fix p
  assume "p \<in> set (map (\<lambda>i. (InID i, Out i))
          (concat (map (\<lambda>txid. map (\<lambda>out. \<lparr>InID = txid, Out = out, Sig = f\<rparr>) (slice_at vo txid)) ks)))"
  then show "p \<in> {(txid, out). out \<in> set (slice_at vo txid)}" by auto
next
  fix p
  assume a: "set ks = dom vo" and "p \<in> {(txid, out). out \<in> set (slice_at vo txid)}"
  then obtain txid out where p: "p = (txid, out)" and o: "out \<in> set (slice_at vo txid)" by auto
  from o have "txid \<in> dom vo" by (cases "vo txid") (auto simp: slice_at_def)
  with a have k: "txid \<in> set ks" by simp
  have "\<lparr>InID = txid, Out = out, Sig = f\<rparr> \<in> set (concat (map (\<lambda>txid. map (\<lambda>out. \<lparr>InID = txid, Out = out, Sig = f\<rparr>) (slice_at vo txid)) ks))"
    using k o by auto
  then have "(\<lambda>i. (InID i, Out i)) \<lparr>InID = txid, Out = out, Sig = f\<rparr> \<in> set (map (\<lambda>i. (InID i, Out i))
          (concat (map (\<lambda>txid. map (\<lambda>out. \<lparr>InID = txid, Out = out, Sig = f\<rparr>) (slice_at vo txid)) ks)))"
    unfolding set_map by (rule imageI)
  with p show "p \<in> set (map (\<lambda>i. (InID i, Out i))
          (concat (map (\<lambda>txid. map (\<lambda>out. \<lparr>InID = txid, Out = out, Sig = f\<rparr>) (slice_at vo txid)) ks)))"
    by simp
qed

lemma length_of_inputs:
  "length (concat (map (\<lambda>txid. map (\<lambda>out. \<lparr>InID = txid, Out = out, Sig = f\<rparr>) (slice_at vo txid)) ks))
     = sum_list (map (\<lambda>txid. length (slice_at vo txid)) ks)"
  by (induction ks) simp_all

text \<open>
  What the construction does with an answer of the resolver that covers the amount (the total
  \<open>acc\<close> is at least the amount, as signed 64-bit integers): one input for each key of
  \<open>validOutputs\<close>, in the order \<open>ks\<close> of the \<^verbatim>\<open>range\<close>, and each index under it, with that
  transaction id, that index and the sender's address; one output of the amount to the
  recipient and, exactly when the total exceeds the amount, one more of the difference (in
  Go's wrapping subtraction) to the sender.
\<close>

lemma NewTransaction_build_shape:
  assumes "amount \<le>s acc"
  shows "\<exists>tx. NewTransaction_build c from_addr to_addr amount acc validOutputs ks = Returns tx \<and>
     Inputs tx = concat (map (\<lambda>txid. map (\<lambda>out. \<lparr>InID = txid, Out = out, Sig = from_addr\<rparr>)
                                       (slice_at validOutputs txid)) ks) \<and>
     length (Inputs tx) = sum_list (map (\<lambda>txid. length (slice_at validOutputs txid)) ks) \<and>
     (set ks = dom validOutputs \<longrightarrow>
        set (map (\<lambda>i. (InID i, Out i)) (Inputs tx))
          = {(txid, out). out \<in> set (slice_at validOutputs txid)}) \<and>
     Outputs tx = \<lparr>Value = amount, PubKey = to_addr\<rparr> #
        (if amount <s acc then [\<lparr>Value = acc - amount, PubKey = from_addr\<rparr>] else []) \<and>
     (0 \<le>s amount \<longrightarrow> sint (acc - amount) = sint acc - sint amount)"
  using sle_not_sless [OF assms] pairs_of_inputs [of ks validOutputs from_addr]
        length_of_inputs [of from_addr validOutputs ks] sint_diff_exact [OF _ assms]
  by (simp add: NewTransaction_build_def SetID_def Let_def split: sum.splits)

lemma NewTransaction_build_example:
  "NewTransaction_build example_collab ''miner'' ''alice'' 30 100 [3 \<mapsto> [0]] [3] =
     Returns \<lparr>ID = 3, Inputs = [\<lparr>InID = 3, Out = 0, Sig = ''miner''\<rparr>],
               Outputs = [\<lparr>Value = 30, PubKey = ''alice''\<rparr>, \<lparr>Value = 70, PubKey = ''miner''\<rparr>]\<rparr>"
  by (simp add: slice_at_def NewTransaction_build_def SetID_def Serialize_def example_collab_def
        word_sless_alt NullHash_def)

text \<open>
  The resolver never answers without an error, whatever the chain: its traversal has no
  successful exit. So the construction is never reached.
\<close>

lemma FindSpendableOutputs_always_errs:
  "FindSpendableOutputs fuel c chain address amount = Some ((acc, validOutputs, e), chain') \<Longrightarrow>
   \<exists>err. e = Some err \<and> acc = - 1 \<and> validOutputs = Map.empty"
  using FindUnspentTransactions_loop_no_success
          [of fuel c chain address "NewIterator chain" "([], Map.empty)"]
  by (auto simp: FindSpendableOutputs_def FindUnspentTransactions_def
           split: option.splits prod.splits sum.splits)

lemma NewTransaction_genesis_chain:
  "NewTransaction 2 example_collab ''miner'' ''alice'' amount genesis_chain =
     Some (Panics (PanicError NotFound), genesis_chain)"
  using FindUnspentTransactions_genesis_chain
  by (simp add: NewTransaction_def FindSpendableOutputs_def)

lemma miner_replay_balance: "spec_replay_balance [genesis_block] ''miner'' = 100"
  by (simp add: spec_replay_balance_def spec_received_def spec_referenced_def
      spec_output_value_def genesis_block_def genesis_txn_def)

text \<open>
  Claim C7. A transfer that \<^verbatim>\<open>NewTransaction\<close> builds (the selected total is at least the
  amount) has one input for each selected output, one output of the amount to the recipient
  and, exactly when the total exceeds the amount, one change output of the difference to the
  sender. In the code no call of \<^verbatim>\<open>NewTransaction\<close> builds a transfer: whatever the
  collaborators, the chain, the addresses and the amount, the call does not return a
  transaction. On the chain of \<^verbatim>\<open>init\<close> the miner owns 100; the transfer of 30 to alice,
  for which the claim has one input, 30 to alice and 70 back to the miner, ends in
  \<^verbatim>\<open>log.Panic\<close> with the error of the traversal.
\<close>

theorem NewTransaction_builds_no_transfer:
  "NewTransaction fuel c from_addr to_addr amount chain \<noteq> Some (Returns tx, chain') \<and>
   spec_replay_balance [genesis_block] ''miner'' = 100 \<and>
   NewTransaction 2 example_collab ''miner'' ''alice'' 30 genesis_chain =
     Some (Panics (PanicError NotFound), genesis_chain)"
proof -
  have "NewTransaction fuel c from_addr to_addr amount chain \<noteq> Some (Returns tx, chain')"
  proof
    assume r: "NewTransaction fuel c from_addr to_addr amount chain = Some (Returns tx, chain')"
    then obtain acc validOutputs e chain1 where
      f: "FindSpendableOutputs fuel c chain from_addr amount = Some ((acc, validOutputs, e), chain1)"
      by (auto simp: NewTransaction_def split: option.splits prod.splits)
    from FindSpendableOutputs_always_errs [OF f] obtain err where "e = Some err" by blast
    with f r show False by (simp add: NewTransaction_def)
  qed
  then show ?thesis
    using miner_replay_balance NewTransaction_genesis_chain [of 30] by simp
qed




section \<open>Block assembly\<close>

lemma GenerateSummary_loop_null:
  "tx \<in> set txns \<Longrightarrow> Transaction_Hash c tx = NullHash \<Longrightarrow>
   GenerateSummary_loop c txns buffer = NullHash"
  by (induction txns arbitrary: buffer) (auto simp: Let_def)

lemma genesis_txn_unhashable: "Transaction_Hash encode_fails_collab genesis_txn = NullHash"
  by (simp add: Transaction_Hash_def Serialize_def encode_fails_collab_def example_collab_def)

text \<open>
  Claim C5, as amended. When the hash of a transaction of the list is the null hash, as it
  is when its encoding fails, \<^verbatim>\<open>GenerateSummary\<close> returns the null hash. \<^verbatim>\<open>NewBlock\<close> has
  no failure result and does not test the summary: it passes the null summary to the header,
  and whenever the proof-of-work search returns, it returns a block with that header.
\<close>

theorem NewBlock_null_summary:
  assumes "tx \<in> set txns" and "Transaction_Hash c tx = NullHash"
  shows "GenerateSummary c txns = NullHash \<and>
     NewBlock c now txns priori height =
       (case Mint c (NewBlockHeader now priori NullHash) of
          None \<Rightarrow> None
        | Some (nonce, hash) \<Rightarrow>
            Some \<lparr>Priori = priori, Summary = NullHash, Timestamp = now, Nonce = nonce,
                  BlockHeight = height, BlockTxns = txns, BlockHash = hash\<rparr>)"
  using GenerateSummary_loop_null [OF assms, of "[]"]
  by (simp add: GenerateSummary_def NewBlock_def NewBlockHeader_def Let_def split: option.splits)

theorem NewBlock_null_summary_witness:
  "genesis_txn \<in> set [genesis_txn] \<and>
   Transaction_Hash encode_fails_collab genesis_txn = NullHash \<and>
   GenerateSummary encode_fails_collab [genesis_txn] = NullHash \<and>
   NewBlock encode_fails_collab 0 [genesis_txn] 41 1 =
     Some \<lparr>Priori = 41, Summary = NullHash, Timestamp = 0, Nonce = 0,
           BlockHeight = 1, BlockTxns = [genesis_txn], BlockHash = 48\<rparr>"
proof -
  have m: "genesis_txn \<in> set [genesis_txn]" by simp
  from NewBlock_null_summary [OF m genesis_txn_unhashable, of 0 41 1] genesis_txn_unhashable
  show ?thesis
    by (simp add: NewBlockHeader_def encode_fails_collab_def example_collab_def NullHash_def)
qed

text \<open>
  Against claim C5 as stated: with an encoder that fails, the hash of the transaction and the
  summary are the null hash, and \<^verbatim>\<open>NewBlock\<close> produces a block all the same.
\<close>

theorem NewBlock_unhashable_transaction_yields_block:
  "Transaction_Hash encode_fails_collab genesis_txn = NullHash \<and>
   GenerateSummary encode_fails_collab [genesis_txn] = NullHash \<and>
   NewBlock encode_fails_collab 0 [genesis_txn] 41 1 =
     Some \<lparr>Priori = 41, Summary = NullHash, Timestamp = 0, Nonce = 0,
           BlockHeight = 1, BlockTxns = [genesis_txn], BlockHash = 48\<rparr>"
  by (simp add: GenerateSummary_def NewBlock_def NewBlockHeader_def Transaction_Hash_def
        Serialize_def encode_fails_collab_def example_collab_def NullHash_def Let_def)

section \<open>Appending blocks\<close>

lemma sint_succ:
  assumes "sint (x::64 word) < 2 ^ 63 - 1"
  shows "sint (x + 1) = sint x + 1"
proof -
  have lo: "- (2 ^ 63) \<le> sint x" using sint_ge [of x] by simp
  have "sint (x + 1) = signed_take_bit 63 (sint x + 1)" by (simp add: sint_word_ariths)
  also have "\<dots> = sint x + 1"
    using assms lo by (intro signed_take_bit_int_eq_self) simp_all
  finally show ?thesis .
qed

text \<open>A call that returns nil has stored the block it assembled and moved head and height.\<close>

lemma AddBlock_success:
  "AddBlock c now txns chain = Some (None, chain') \<Longrightarrow>
   \<exists>block. NewBlock c now txns (Head chain) (Height chain) = Some block \<and>
     Head chain' = BlockHash block \<and> Height chain' = Height chain + 1 \<and>
     blocks (db chain') (BlockHash block) = Some block \<and>
     chainhead (db chain') = Some (BlockHash block) \<and>
     chainheight (db chain') = Some (Height chain + 1)"
  by (auto simp: AddBlock_def syncState_def SetEntry_block_def SetEntry_head_def SetEntry_height_def
       split: option.splits sum.splits prod.splits if_splits)

lemma successful_AddBlocks_Cons:
  "successful_AddBlocks c (call # calls) chain = Some mgrs \<Longrightarrow>
   \<exists>chain1 rest. AddBlock c (fst call) (snd call) chain = Some (None, chain1) \<and>
      successful_AddBlocks c calls chain1 = Some rest \<and> mgrs = chain1 # rest"
  by (cases call) (auto split: option.splits prod.splits)

lemma successful_AddBlocks_length:
  "successful_AddBlocks c calls chain = Some mgrs \<Longrightarrow> length mgrs = length calls"
proof (induction calls arbitrary: chain mgrs)
  case Nil then show ?case by simp
next
  case (Cons call calls)
  from successful_AddBlocks_Cons [OF Cons.prems] obtain chain1 rest where
    "successful_AddBlocks c calls chain1 = Some rest" "mgrs = chain1 # rest" by blast
  with Cons.IH show ?case by simp
qed

lemma successful_AddBlocks_step:
  "successful_AddBlocks c calls chain = Some mgrs \<Longrightarrow> i < length calls \<Longrightarrow>
   AddBlock c (fst (calls ! i)) (snd (calls ! i)) ((chain # mgrs) ! i) = Some (None, mgrs ! i)"
proof (induction calls arbitrary: chain mgrs i)
  case Nil then show ?case by simp
next
  case (Cons call calls)
  from successful_AddBlocks_Cons [OF Cons.prems(1)] obtain chain1 rest where
    a: "AddBlock c (fst call) (snd call) chain = Some (None, chain1)"
    and r: "successful_AddBlocks c calls chain1 = Some rest" and m: "mgrs = chain1 # rest" by blast
  show ?case
  proof (cases i)
    case 0 with a m show ?thesis by simp
  next
    case (Suc j)
    with Cons.prems(2) have "j < length calls" by simp
    from Cons.IH [OF r this] Suc m show ?thesis by simp
  qed
qed

lemma successful_AddBlocks_height:
  "successful_AddBlocks c calls chain = Some mgrs \<Longrightarrow> i < length calls \<Longrightarrow>
   Height (mgrs ! i) = Height chain + of_nat (Suc i)"
proof (induction calls arbitrary: chain mgrs i)
  case Nil then show ?case by simp
next
  case (Cons call calls)
  from successful_AddBlocks_Cons [OF Cons.prems(1)] obtain chain1 rest where
    a: "AddBlock c (fst call) (snd call) chain = Some (None, chain1)"
    and r: "successful_AddBlocks c calls chain1 = Some rest" and m: "mgrs = chain1 # rest" by blast
  from AddBlock_success [OF a] have h: "Height chain1 = Height chain + 1" by blast
  show ?case
  proof (cases i)
    case 0 with h m show ?thesis by simp
  next
    case (Suc j)
    with Cons.prems(2) have "j < length calls" by simp
    from Cons.IH [OF r this] Suc m h show ?thesis by simp
  qed
qed

lemma example_run:
  "successful_AddBlocks example_collab [(5, [genesis_txn]), (6, [genesis_txn])] genesis_chain =
     Some [example_chain1, example_chain2]"
  by (simp add: AddBlock_def NewBlock_def NewBlockHeader_def GenerateSummary_def Transaction_Hash_def
      Serialize_def example_collab_def genesis_chain_def example_chain1_def example_chain2_def
      example_block1_def example_block2_def
      genesis_txn_def Block_Serialize_def SetEntry_block_def syncState_def
      SetEntry_head_def SetEntry_height_def NullHash_def Hash_Bytes_def Let_def)

text \<open>
  Claim C9. In a run of calls of \<^verbatim>\<open>AddBlock\<close> that all return nil, from any chain manager,
  the call number \<open>i\<close> starts from the manager that the call before it left (the first from the
  initial one) and leaves a manager whose head is the hash of the block that this call
  assembled and stored, and whose height is the height before plus one, in the 64-bit
  arithmetic of \<^verbatim>\<open>chain.Height++\<close>: so after \<open>i + 1\<close> calls the height is the initial one
  plus \<open>i + 1\<close>, and as integers the height grows by one unless it was the largest \<^verbatim>\<open>int64\<close>.
\<close>

theorem AddBlock_monotonic_append:
  assumes "successful_AddBlocks c calls chain = Some mgrs" and "i < length calls"
  shows "length mgrs = length calls \<and>
    (\<exists>block. NewBlock c (fst (calls ! i)) (snd (calls ! i))
                (Head ((chain # mgrs) ! i)) (Height ((chain # mgrs) ! i)) = Some block \<and>
             Head (mgrs ! i) = BlockHash block \<and>
             blocks (db (mgrs ! i)) (Head (mgrs ! i)) = Some block) \<and>
    Height (mgrs ! i) = Height ((chain # mgrs) ! i) + 1 \<and>
    Height (mgrs ! i) = Height chain + of_nat (Suc i) \<and>
    (sint (Height ((chain # mgrs) ! i)) < 2 ^ 63 - 1 \<longrightarrow>
       sint (Height (mgrs ! i)) = sint (Height ((chain # mgrs) ! i)) + 1)"
proof -
  from AddBlock_success [OF successful_AddBlocks_step [OF assms]] obtain block where
    b: "NewBlock c (fst (calls ! i)) (snd (calls ! i))
          (Head ((chain # mgrs) ! i)) (Height ((chain # mgrs) ! i)) = Some block"
    and h: "Head (mgrs ! i) = BlockHash block"
    and n: "Height (mgrs ! i) = Height ((chain # mgrs) ! i) + 1"
    and s: "blocks (db (mgrs ! i)) (BlockHash block) = Some block" by blast
  have "sint (Height ((chain # mgrs) ! i)) < 2 ^ 63 - 1 \<longrightarrow>
       sint (Height (mgrs ! i)) = sint (Height ((chain # mgrs) ! i)) + 1"
    using n sint_succ [of "Height ((chain # mgrs) ! i)"] by simp
  with b h n s successful_AddBlocks_length [OF assms(1)] successful_AddBlocks_height [OF assms]
  show ?thesis by auto
qed

theorem AddBlock_monotonic_append_witness:
  "successful_AddBlocks example_collab [(5, [genesis_txn]), (6, [genesis_txn])] genesis_chain =
     Some [example_chain1, example_chain2] \<and>
   (1::nat) < length [(5::int64, [genesis_txn]), (6, [genesis_txn])] \<and>
   Head example_chain2 = BlockHash example_block2 \<and>
   Height example_chain2 = Height example_chain1 + 1 \<and>
   sint (Height example_chain2) = sint (Height example_chain1) + 1"
  using AddBlock_monotonic_append [OF example_run, of 1] example_run
  by (simp add: example_chain1_def example_chain2_def example_block2_def)

end
